theory Spec2Isabelle
  imports Main "HOL-Library.Word" "HOL-Library.Sublist" "HOL-Library.Char_ord"
    "HOL-Library.List_Lexorder"
begin

section \<open>A shallow embedding of the maildir package (src/maildir.go)\<close>

text \<open>
  The package reads and moves message files of one Maildir directory. Every function of
  the source that a property below talks about is translated here: \<open>Unseen\<close>,
  \<open>Keys\<close>, \<open>Filename\<close>, \<open>Flags\<close>, \<open>SetInfo\<close> and \<open>Key\<close> (\<open>Header\<close> and
  \<open>Message\<close>, which hand a resolved file to the mail parser, are left out). What the source asks of
  the operating system and of Go's standard library (directory listings, rename, glob
  matching, the host name, the random source) is modelled next to them, on these terms:
  \<^item> strings are ASCII (\<open>isASCII\<close>), so that a byte of a Go string is a rune and
    \<open>string\<close> (a list of \<open>char\<close>) stands for both \<open>string\<close> and \<open>[]rune\<close>; on other
    strings the model works on the bytes, where \<open>Flags\<close> decodes UTF-8 before it sorts;
  \<^item> the platform is Unix: the path separator is \<open>/\<close>, the glob escape is the backslash;
  \<^item> \<open>filepath.Join\<close> joins its non-empty elements with \<open>/\<close>; the lexical clean-up it
    also performs is the identity on the paths used here (the directory is a clean path
    other than the root and \<open>.\<close>, keys and names have no \<open>.\<close> or \<open>..\<close> component);
  \<^item> the directory part of a glob pattern is taken literally (the directory path holds no
    glob metacharacter);
  \<^item> a call that returns \<open>(value, error)\<close> in Go returns the pair here, the error as an
    \<open>option\<close> (\<open>None\<close> is \<open>nil\<close>); a nil slice and an empty slice are both \<open>[]\<close>;
  \<^item> a run-time panic (an index out of range) is the outcome \<open>Panic\<close>.
\<close>

subsection \<open>Errors and outcomes\<close>

text \<open>
  \<open>KeyError\<close> and \<open>FlagError\<close> are the two error structs of the source, with their
  fields. \<open>IOFailure\<close> stands for an error of the operating system (its text is opaque)
  and \<open>ErrBadPattern\<close> for the one error of \<open>filepath.Glob\<close>.
\<close>

datatype error =
    KeyError string int
  | FlagError string bool
  | IOFailure string
  | ErrBadPattern

datatype 'a outcome = Return 'a | Panic

subsection \<open>Library functions on strings\<close>

definition isASCII :: "string \<Rightarrow> bool" where
  "isASCII s = list_all (\<lambda>c. of_char c < (128 :: nat)) s"

text \<open>
  \<open>strings.FieldsFunc(s, f)\<close> splits \<open>s\<close> at each run of characters that satisfy \<open>f\<close>
  and returns the fields between the runs; no field is empty. \<open>fields_from\<close> scans the
  string with the field under construction in \<open>acc\<close>.
\<close>

fun fields_from :: "(char \<Rightarrow> bool) \<Rightarrow> string \<Rightarrow> string \<Rightarrow> string list" where
  "fields_from f acc [] = (if acc = [] then [] else [acc])"
| "fields_from f acc (c # cs) =
     (if f c then (if acc = [] then fields_from f [] cs else acc # fields_from f [] cs)
      else fields_from f (acc @ [c]) cs)"

definition FieldsFunc :: "string \<Rightarrow> (char \<Rightarrow> bool) \<Rightarrow> string list" where
  "FieldsFunc s f = fields_from f [] s"

text \<open>
  \<open>strings.Replace(s, old, new, -1)\<close> for a one-character \<open>old\<close>, the only use the
  source makes of it: every occurrence of the character is replaced by \<open>new\<close>.
\<close>

fun Replace :: "string \<Rightarrow> char \<Rightarrow> string \<Rightarrow> string" where
  "Replace [] old new = []"
| "Replace (c # cs) old new = (if c = old then new @ Replace cs old new else c # Replace cs old new)"

text \<open>
  An interpreted Go string literal reads a backslash followed by three octal digits as
  the one byte with that value: \<open>"\057"\<close> is a string of length one.
\<close>

definition octal_escape :: "nat \<Rightarrow> nat \<Rightarrow> nat \<Rightarrow> string" where
  "octal_escape a b c = [char_of (a * 64 + b * 8 + c)]"

text \<open>\<open>strconv.FormatInt(i, 10)\<close>: the decimal digits of \<open>i\<close>, with a sign when negative.\<close>

definition digit_char :: "nat \<Rightarrow> char" where
  "digit_char n = ''0123456789abcdef'' ! n"

function decimal :: "nat \<Rightarrow> string" where
  "decimal n = (if n < 10 then [digit_char n] else decimal (n div 10) @ [digit_char (n mod 10)])"
  by pat_completeness auto
termination
  by (relation "measure id") auto

declare decimal.simps [simp del]

definition FormatInt :: "int \<Rightarrow> string" where
  "FormatInt i = (if i < 0 then CHR ''-'' # decimal (nat (- i)) else decimal (nat i))"

text \<open>\<open>hex.EncodeToString\<close>: two lower-case hexadecimal digits for each byte.\<close>

definition hex_byte :: "8 word \<Rightarrow> string" where
  "hex_byte b = [digit_char (unat b div 16), digit_char (unat b mod 16)]"

definition EncodeToString :: "8 word list \<Rightarrow> string" where
  "EncodeToString bs = concat (map hex_byte bs)"

subsection \<open>The key generator\<close>

text \<open>
  What \<open>Key\<close> reads from its surroundings: the clock (\<open>time.Now().Unix()\<close>), the two
  results of \<open>os.Hostname()\<close>, the process id, and the two results of
  \<open>io.ReadFull(rand.Reader, bs)\<close> for a buffer of the given length (the bytes read and
  the error). The package-level counter \<open>id\<close> (here \<open>id_ctr\<close>) is passed in and returned updated.
\<close>

record sys =
  now_unix :: "64 word"
  hostname :: "string \<times> error option"
  getpid :: "64 word"
  rand_read :: "nat \<Rightarrow> 8 word list \<times> error option"

text \<open>
  The translation follows the source statement by statement. The test after
  \<open>os.Hostname()\<close> is \<open>err != err\<close> in the source, and is kept as it is written (the
  errors of \<open>os.Hostname\<close> are comparable values, so the comparison is false); the
  two replacement strings are the literals \<open>"\057"\<close> and \<open>"\072"\<close> of the source. The
  counter is incremented before the random bytes are read, as in the source.
\<close>

definition Key :: "sys \<Rightarrow> 64 word \<Rightarrow> (string \<times> error option) \<times> 64 word" where
  "Key env id_ctr =
     (let key = FormatInt (sint (now_unix env));
          key = key @ ''.'';
          (host, err) = hostname env
      in if err \<noteq> err then (('''', err), id_ctr)
         else
           let host = Replace host CHR ''/'' (octal_escape 0 5 7);
               host = Replace host CHR '':'' (octal_escape 0 7 2);
               key = key @ host;
               key = key @ ''.'';
               key = key @ FormatInt (sint (getpid env));
               key = key @ FormatInt (sint id_ctr);
               id' = id_ctr + 1;
               (bs, err) = rand_read env 10
           in if err \<noteq> None then (('''', err), id')
              else ((key @ EncodeToString bs, None), id'))"

subsection \<open>Paths\<close>

fun join_slash :: "string list \<Rightarrow> string" where
  "join_slash [] = []"
| "join_slash [e] = e"
| "join_slash (e # es) = e @ ''/'' @ join_slash es"

definition Join :: "string list \<Rightarrow> string" where
  "Join elems = join_slash (filter (\<lambda>e. e \<noteq> []) elems)"

text \<open>
  \<open>filepath.Split\<close> cuts a path after its last \<open>/\<close>: the directory keeps the slash.
  \<open>cleanGlobPath\<close> (of \<open>filepath.Glob\<close>) removes that slash again; \<open>dir_of\<close> and
  \<open>base_of\<close> name the directory and the entry that a path denotes.
\<close>

definition Split :: "string \<Rightarrow> string \<times> string" where
  "Split path =
     (let file = rev (takeWhile (\<lambda>c. c \<noteq> CHR ''/'') (rev path))
      in (take (length path - length file) path, file))"

definition cleanGlobPath :: "string \<Rightarrow> string" where
  "cleanGlobPath dir = (if dir = [] then ''.'' else if dir = ''/'' then dir else butlast dir)"

definition dir_of :: "string \<Rightarrow> string" where
  "dir_of path = cleanGlobPath (fst (Split path))"

definition base_of :: "string \<Rightarrow> string" where
  "base_of path = snd (Split path)"

subsection \<open>The file system\<close>

text \<open>
  The state of the file system: \<open>dirs\<close> gives, for the path of a directory, the names of
  its entries in the order in which \<open>Readdirnames\<close> lists them (the order is the file
  system's choice; a rename puts the new name last here), and \<open>None\<close> for a path that is
  not a directory. The entries are plain files. \<open>fault\<close> gives the paths on which the
  operating system refuses to work (a file that is immutable or, in a sticky directory,
  owned by another user; a name that is too long; a device error), with the error it
  reports.
\<close>

record filesys =
  dirs :: "string \<Rightarrow> string list option"
  fault :: "string \<Rightarrow> error option"

definition os_Open :: "filesys \<Rightarrow> string \<Rightarrow> error option" where
  "os_Open fs path =
     (case fault fs path of
        Some e \<Rightarrow> Some e
      | None \<Rightarrow> (if dirs fs path = None then Some (IOFailure ''no such file or directory'')
                 else None))"

definition Readdirnames :: "filesys \<Rightarrow> string \<Rightarrow> string list \<times> error option" where
  "Readdirnames fs path =
     (case dirs fs path of
        None \<Rightarrow> ([], Some (IOFailure ''not a directory''))
      | Some names \<Rightarrow> (names, None))"

text \<open>
  \<open>os.Rename\<close>: fails, and changes nothing, on a faulty path, when the old path names
  no entry or when the new path lies in no directory; otherwise the entry leaves the old
  directory and the new name appears in the new one, replacing an entry of that name.
\<close>

definition os_Rename :: "filesys \<Rightarrow> string \<Rightarrow> string \<Rightarrow> error option \<times> filesys" where
  "os_Rename fs oldpath newpath =
     (case fault fs oldpath of
        Some e \<Rightarrow> (Some e, fs)
      | None \<Rightarrow>
     (case fault fs newpath of
        Some e \<Rightarrow> (Some e, fs)
      | None \<Rightarrow>
     (case dirs fs (dir_of oldpath) of
        None \<Rightarrow> (Some (IOFailure ''no such file or directory''), fs)
      | Some olds \<Rightarrow>
     (case dirs fs (dir_of newpath) of
        None \<Rightarrow> (Some (IOFailure ''no such file or directory''), fs)
      | Some news \<Rightarrow>
          if base_of oldpath \<notin> set olds
          then (Some (IOFailure ''no such file or directory''), fs)
          else if base_of newpath = []
          then (Some (IOFailure ''no such file or directory''), fs)
          else
            let olds' = removeAll (base_of oldpath) olds;
                news' = (if dir_of newpath = dir_of oldpath then olds' else news);
                news'' = removeAll (base_of newpath) news' @ [base_of newpath]
            in (None, fs\<lparr>dirs := (dirs fs)(dir_of oldpath := Some olds',
                                                 dir_of newpath := Some news'')\<rparr>)))))"

subsection \<open>Glob patterns\<close>

text \<open>
  The patterns of \<open>filepath.Match\<close>, after its documented grammar: \<open>*\<close> matches any
  sequence of characters other than \<open>/\<close>, \<open>?\<close> one such character, a class
  \<open>[...]\<close> or \<open>[^...]\<close> one character inside (outside) its non-empty list of ranges,
  a backslash makes the next character literal, any other character matches itself.
  A pattern outside the grammar is malformed (\<open>ErrBadPattern\<close>).
\<close>

datatype glob_term = Star | AnyChar | Lit char | Class bool "(char \<times> char) list"

text \<open>
  \<open>getEsc\<close> reads one character of a class, as the library function of that name does:
  \<open>-\<close> and \<open>]\<close> cannot start a range, a backslash escapes the next character, and the
  pattern cannot end inside the class.
\<close>

fun getEsc :: "string \<Rightarrow> (char \<times> string) option" where
  "getEsc [] = None"
| "getEsc (c # cs) =
     (if c = CHR ''-'' \<or> c = CHR '']'' then None
      else if c = CHR 0x5C then
        (case cs of [] \<Rightarrow> None | e # es \<Rightarrow> (if es = [] then None else Some (e, es)))
      else (if cs = [] then None else Some (c, cs)))"

lemma getEsc_shorter: "getEsc chunk = Some (r, rest) \<Longrightarrow> length rest < length chunk"
  by (cases chunk) (auto split: if_splits list.splits)

function class_ranges :: "bool \<Rightarrow> string \<Rightarrow> ((char \<times> char) list \<times> string) option" where
  "class_ranges some chunk =
     (if some \<and> chunk \<noteq> [] \<and> hd chunk = CHR '']'' then Some ([], tl chunk)
      else
        (case getEsc chunk of
           None \<Rightarrow> None
         | Some (lo, chunk1) \<Rightarrow>
             if hd chunk1 = CHR ''-'' then
               (case getEsc (tl chunk1) of
                  None \<Rightarrow> None
                | Some (hi, chunk2) \<Rightarrow>
                    (case class_ranges True chunk2 of
                       None \<Rightarrow> None
                     | Some (rs, rest) \<Rightarrow> Some ((lo, hi) # rs, rest)))
             else
               (case class_ranges True chunk1 of
                  None \<Rightarrow> None
                | Some (rs, rest) \<Rightarrow> Some ((lo, lo) # rs, rest))))"
  by pat_completeness auto
termination
proof (relation "measure (\<lambda>(some, chunk). length chunk)", goal_cases)
  case 1
  show ?case by simp
next
  case (2 some chunk x2 lo chunk1 x2a hi chunk2)
  then have "length chunk1 < length chunk" and "length chunk2 < length (tl chunk1)"
    by (auto dest: getEsc_shorter)
  then show ?case by simp
next
  case (3 some chunk x2 lo chunk1)
  then show ?case by (auto dest: getEsc_shorter)
qed

declare class_ranges.simps [simp del]

lemma class_ranges_shorter:
  "class_ranges some chunk = Some (rs, rest) \<Longrightarrow> length rest < length chunk"
proof (induction some chunk arbitrary: rs rest rule: class_ranges.induct)
  case (1 some chunk)
  show ?case
  proof (cases "some \<and> chunk \<noteq> [] \<and> hd chunk = CHR '']''")
    case True
    with "1.prems" have "rest = tl chunk"
      by (subst (asm) class_ranges.simps) simp
    with True show ?thesis
      by (cases chunk) simp_all
  next
    case False
    with "1.prems" obtain lo chunk1 where esc: "getEsc chunk = Some (lo, chunk1)"
      by (subst (asm) class_ranges.simps) (auto split: option.splits)
    have l1: "length chunk1 < length chunk"
      using esc by (rule getEsc_shorter)
    show ?thesis
    proof (cases "hd chunk1 = CHR ''-''")
      case dash: True
      with "1.prems" False esc obtain hi chunk2 rs' where
        esc2: "getEsc (tl chunk1) = Some (hi, chunk2)" and
        rec: "class_ranges True chunk2 = Some (rs', rest)"
        by (subst (asm) class_ranges.simps) (auto split: option.splits)
      have "length rest < length chunk2"
        using "1.IH"(1) [OF False esc refl dash esc2 refl rec] .
      moreover have "length chunk2 < length (tl chunk1)"
        using esc2 by (rule getEsc_shorter)
      ultimately show ?thesis using l1 by simp
    next
      case nodash: False
      with "1.prems" False esc obtain rs' where
        rec: "class_ranges True chunk1 = Some (rs', rest)"
        by (subst (asm) class_ranges.simps) (auto split: option.splits)
      have "length rest < length chunk1"
        using "1.IH"(2) [OF False esc refl nodash rec] .
      then show ?thesis using l1 by simp
    qed
  qed
qed

text \<open>The terms of a pattern, or \<open>None\<close> for a malformed pattern.\<close>

function parse_pattern :: "string \<Rightarrow> glob_term list option" where
  "parse_pattern [] = Some []"
| "parse_pattern (c # p) =
     (if c = CHR ''*'' then map_option (Cons Star) (parse_pattern p)
      else if c = CHR ''?'' then map_option (Cons AnyChar) (parse_pattern p)
      else if c = CHR ''['' then
        (let negated = (p \<noteq> [] \<and> hd p = CHR ''^'');
             q = (if negated then tl p else p)
         in case class_ranges False q of
              None \<Rightarrow> None
            | Some (rs, rest) \<Rightarrow> map_option (Cons (Class negated rs)) (parse_pattern rest))
      else if c = CHR 0x5C then
        (case p of
           [] \<Rightarrow> None
         | e # q \<Rightarrow> map_option (Cons (Lit e)) (parse_pattern q))
      else map_option (Cons (Lit c)) (parse_pattern p))"
  by pat_completeness auto
termination
proof (relation "measure length", goal_cases)
  case (4 c p negated q x2 rs rest)
  then have "length rest < length q"
    by (auto dest: class_ranges_shorter)
  moreover have "length q \<le> length p"
    using 4 by simp
  ultimately show ?case by simp
qed auto

declare parse_pattern.simps(2) [simp del]

fun match_terms :: "glob_term list \<Rightarrow> string \<Rightarrow> bool" where
  "match_terms [] s = (s = [])"
| "match_terms (Star # ts) [] = match_terms ts []"
| "match_terms (Star # ts) (c # s) =
     (match_terms ts (c # s) \<or> (c \<noteq> CHR ''/'' \<and> match_terms (Star # ts) s))"
| "match_terms (AnyChar # ts) (c # s) = (c \<noteq> CHR ''/'' \<and> match_terms ts s)"
| "match_terms (Lit a # ts) (c # s) = (a = c \<and> match_terms ts s)"
| "match_terms (Class negated rs # ts) (c # s) =
     ((list_ex (\<lambda>(lo, hi). lo \<le> c \<and> c \<le> hi) rs \<noteq> negated) \<and> match_terms ts s)"
| "match_terms (t # ts) [] = False"

definition Match :: "string \<Rightarrow> string \<Rightarrow> bool \<times> error option" where
  "Match pattern name =
     (case parse_pattern pattern of
        None \<Rightarrow> (False, Some ErrBadPattern)
      | Some ts \<Rightarrow> (match_terms ts name, None))"

text \<open>
  \<open>hasMeta\<close> of the library: whether a path holds one of the characters that are
  special in a pattern. The directory part of the patterns globbed here has none.
\<close>

definition hasMeta :: "string \<Rightarrow> bool" where
  "hasMeta path = list_ex (\<lambda>c. c \<in> set [CHR ''*'', CHR ''?'', CHR ''['', CHR 0x5C]) path"

text \<open>
  \<open>filepath.Glob\<close> for a pattern whose last element holds the metacharacters (the source
  always appends \<open>*\<close>): a malformed pattern is the only error; the entries of the
  pattern's directory are read (a directory that cannot be read has no match), sorted,
  and each name that matches the last element is returned joined to the directory.
\<close>

fun glob_names :: "string \<Rightarrow> string \<Rightarrow> string list \<Rightarrow> string list \<Rightarrow> string list \<times> error option" where
  "glob_names dir pattern [] m = (m, None)"
| "glob_names dir pattern (n # names) m =
     (let (matched, err) = Match pattern n
      in if err \<noteq> None then (m, err)
         else glob_names dir pattern names (if matched then m @ [Join [dir, n]] else m))"

definition glob :: "filesys \<Rightarrow> string \<Rightarrow> string \<Rightarrow> string list \<Rightarrow> string list \<times> error option" where
  "glob fs dir pattern matches =
     (if os_Open fs dir \<noteq> None then (matches, None)
      else let (names, err) = Readdirnames fs dir
           in if err \<noteq> None then (matches, None)
              else glob_names dir pattern (sort names) matches)"

definition Glob :: "filesys \<Rightarrow> string \<Rightarrow> string list \<times> error option" where
  "Glob fs pattern =
     (let (matched, err) = Match pattern []
      in if err \<noteq> None then ([], err)
         else let (dir, file) = Split pattern
              in glob fs (cleanGlobPath dir) file [])"

subsection \<open>The operations of a directory\<close>

text \<open>
  The receiver \<open>d\<close> of the source's methods is the path of the mailbox directory. The
  package variable \<open>Separator\<close> is the parameter \<open>Separator\<close> of the two functions
  that read it, \<open>Unseen\<close> and \<open>SetInfo\<close>; \<open>Keys\<close> and \<open>Flags\<close> are written with the
  character \<open>:\<close> in the source and take no such parameter.
\<close>

definition Filename :: "string \<Rightarrow> filesys \<Rightarrow> string \<Rightarrow> string \<times> error option" where
  "Filename d fs key =
     (let (matches, err) = Glob fs (Join [d, ''cur'', key @ ''*''])
      in if err \<noteq> None then ('''', err)
         else let n = int (length matches)
              in if n \<noteq> 1 then ('''', Some (KeyError key n))
                 else (matches ! 0, None))"

text \<open>
  \<open>Flags\<close>: the source indexes \<open>split[1]\<close> without a test of \<open>len(split)\<close>; with fewer
  than two fields the index is out of range and the call panics. The two conditions of
  the first \<open>case\<close> are tested from left to right, here in two branches. The source
  sorts the runes of \<open>split[1][2:]\<close>; they are its bytes when it is ASCII.
\<close>

definition Flags :: "string \<Rightarrow> filesys \<Rightarrow> string \<Rightarrow> (string \<times> error option) outcome" where
  "Flags d fs key =
     (let (filename, err) = Filename d fs key
      in if err \<noteq> None then Return ([], err)
         else
           let split = FieldsFunc filename (\<lambda>r. r = CHR '':'')
           in if length split < 2 then Panic
              else if length (split ! 1) < 2 then
                Return ([], Some (FlagError (split ! 1) False))
              else if split ! 1 ! 1 \<noteq> CHR '','' then
                Return ([], Some (FlagError (split ! 1) False))
              else if split ! 1 ! 0 = CHR ''1'' then
                Return ([], Some (FlagError (split ! 1) True))
              else if split ! 1 ! 0 \<noteq> CHR ''2'' then
                Return ([], Some (FlagError (split ! 1) False))
              else Return (sort (drop 2 (split ! 1)), None))"

definition SetInfo :: "char \<Rightarrow> string \<Rightarrow> filesys \<Rightarrow> string \<Rightarrow> string \<Rightarrow> error option \<times> filesys" where
  "SetInfo Separator d fs key info =
     (let (filename, err) = Filename d fs key
      in if err \<noteq> None then (err, fs)
         else os_Rename fs filename (Join [d, ''cur'', key @ [Separator] @ info]))"

text \<open>
  The loop of \<open>Keys\<close>. \<open>n[0]\<close> panics on an empty name and \<open>split[0]\<close> on a name
  without a field (a name made of \<open>:\<close> only).
\<close>

fun Keys_loop :: "string list \<Rightarrow> string list \<Rightarrow> string list outcome" where
  "Keys_loop [] keys = Return keys"
| "Keys_loop (n # names) keys =
     (if n = [] then Panic
      else if n ! 0 \<noteq> CHR ''.'' then
        (let split = FieldsFunc n (\<lambda>r. r = CHR '':'')
         in if split = [] then Panic
            else Keys_loop names (keys @ [split ! 0]))
      else Keys_loop names keys)"

definition Keys :: "string \<Rightarrow> filesys \<Rightarrow> (string list \<times> error option) outcome" where
  "Keys d fs =
     (let err = os_Open fs (Join [d, ''cur''])
      in if err \<noteq> None then Return ([], err)
         else
           let (names, err) = Readdirnames fs (Join [d, ''cur''])
           in if err \<noteq> None then Return ([], err)
              else (case Keys_loop names [] of
                      Panic \<Rightarrow> Panic
                    | Return keys \<Rightarrow> Return (keys, None)))"

text \<open>
  The loop of \<open>Unseen\<close>, with the three variables it updates: the keys, \<open>err\<close> and the
  file system. Each rename assigns \<open>err\<close>; nothing reads it before the loop ends.
\<close>

fun Unseen_loop ::
  "char \<Rightarrow> string \<Rightarrow> string list \<Rightarrow> string list \<Rightarrow> error option \<Rightarrow> filesys \<Rightarrow>
     (string list \<times> error option) outcome \<times> filesys" where
  "Unseen_loop Separator d [] keys err fs = (Return (keys, err), fs)"
| "Unseen_loop Separator d (n # names) keys err fs =
     (if n = [] then (Panic, fs)
      else if n ! 0 \<noteq> CHR ''.'' then
        (let split = FieldsFunc n (\<lambda>r. r = Separator)
         in if split = [] then (Panic, fs)
            else
              let keys = keys @ [split ! 0];
                  (err, fs) = os_Rename fs (Join [d, ''new'', n])
                                (Join [d, ''cur'', n @ [Separator] @ ''2,S''])
              in Unseen_loop Separator d names keys err fs)
      else Unseen_loop Separator d names keys err fs)"

definition Unseen ::
  "char \<Rightarrow> string \<Rightarrow> filesys \<Rightarrow> (string list \<times> error option) outcome \<times> filesys" where
  "Unseen Separator d fs =
     (let err = os_Open fs (Join [d, ''new''])
      in if err \<noteq> None then (Return ([], err), fs)
         else
           let (names, err) = Readdirnames fs (Join [d, ''new''])
           in if err \<noteq> None then (Return ([], err), fs)
              else Unseen_loop Separator d names [] err fs)"

subsection \<open>File systems for the examples\<close>

text \<open>A file system from a list of directories with their entries and a list of faulty paths.\<close>

definition mk_fs :: "(string \<times> string list) list \<Rightarrow> (string \<times> error) list \<Rightarrow> filesys" where
  "mk_fs ds fl = \<lparr>dirs = map_of ds, fault = map_of fl\<rparr>"

section \<open>Properties of the key generator\<close>

lemma octal_escape_slash: "octal_escape 0 5 7 = ''/''"
  by code_simp

lemma octal_escape_colon: "octal_escape 0 7 2 = '':''"
  by code_simp

lemma Replace_same: "Replace host c [c] = host"
  by (induction host) simp_all

text \<open>
  Both calls of \<open>strings.Replace\<close> in \<open>Key\<close> replace a character by itself: the host
  name enters the key unchanged.
\<close>

lemma Key_host_unchanged:
  "Replace (Replace host CHR ''/'' (octal_escape 0 5 7)) CHR '':'' (octal_escape 0 7 2) = host"
  by (simp add: octal_escape_slash octal_escape_colon Replace_same)

text \<open>
  The error of \<open>os.Hostname()\<close> is never returned: whenever the random bytes are read,
  \<open>Key\<close> returns a key and no error. A failed read of the random bytes is returned,
  with an empty key.
\<close>

lemma Key_ignores_hostname_error:
  "snd (rand_read env 10) = None \<Longrightarrow> snd (fst (Key env id_ctr)) = None"
  by (cases "hostname env"; cases "rand_read env 10") (simp add: Key_def Let_def)

lemma Key_random_failure:
  "snd (rand_read env 10) = Some e \<Longrightarrow> fst (Key env id_ctr) = ('''', Some e)"
  by (cases "hostname env"; cases "rand_read env 10") (simp add: Key_def Let_def)

text \<open>
  C1. A call of \<open>Key\<close> in which the host name lookup fails while the random bytes are
  read: the source tests \<open>err != err\<close>, which never holds, so the call returns a key
  (with an empty host field) and a nil error, where an error and no key are due.
\<close>

theorem Key_hostname_failure_returns_key:
  "Key \<lparr>now_unix = 1700000000,
        hostname = ('''', Some (IOFailure ''hostname lookup failed'')),
        getpid = 42,
        rand_read = (\<lambda>n. ([1, 35, 69, 103, 137, 171, 205, 239, 16, 50], None))\<rparr> 10000
   = ((''1700000000..42100000123456789abcdef1032'', None), 10001)"
  by (simp add: Key_def Let_def octal_escape_slash octal_escape_colon FormatInt_def
      decimal.simps digit_char_def EncodeToString_def hex_byte_def)

text \<open>
  C2. A call of \<open>Key\<close> on a host named \<open>a/b:c\<close>: the Go literals \<open>"\057"\<close> and
  \<open>"\072"\<close> are the one-character strings \<open>/\<close> and \<open>:\<close>, not four-character escape
  sequences, so the host field of the key is \<open>a/b:c\<close> with both characters raw.
\<close>

theorem Key_keeps_slash_and_colon:
  "Key \<lparr>now_unix = 1700000000,
        hostname = (''a/b:c'', None),
        getpid = 42,
        rand_read = (\<lambda>n. ([1, 35, 69, 103, 137, 171, 205, 239, 16, 50], None))\<rparr> 10000
   = ((''1700000000.a/b:c.42100000123456789abcdef1032'', None), 10001)"
  by (simp add: Key_def Let_def octal_escape_slash octal_escape_colon FormatInt_def
      decimal.simps digit_char_def EncodeToString_def hex_byte_def)

section \<open>Splitting a name into fields\<close>

lemma fields_from_acc:
  "acc \<noteq> [] \<Longrightarrow>
     fields_from f acc s \<noteq> [] \<and> hd (fields_from f acc s) = acc @ takeWhile (\<lambda>c. \<not> f c) s"
  by (induction s arbitrary: acc) simp_all

lemma fields_from_empty_iff: "fields_from f [] s = [] \<longleftrightarrow> (\<forall>c\<in>set s. f c)"
proof (induction s)
  case Nil
  show ?case by simp
next
  case (Cons c s)
  show ?case
    using Cons fields_from_acc [of "[c]" f s] by auto
qed

lemma fields_from_hd:
  "\<exists>c\<in>set s. \<not> f c \<Longrightarrow>
     hd (fields_from f [] s) = takeWhile (\<lambda>c. \<not> f c) (dropWhile f s)"
proof (induction s)
  case Nil
  then show ?case by simp
next
  case (Cons c s)
  show ?case
  proof (cases "f c")
    case True
    with Cons show ?thesis by simp
  next
    case False
    then show ?thesis
      using fields_from_acc [of "[c]" f s] by simp
  qed
qed

lemma fields_from_plain:
  "\<forall>c\<in>set s. \<not> f c \<Longrightarrow> fields_from f acc s = (if acc @ s = [] then [] else [acc @ s])"
  by (induction s arbitrary: acc) simp_all

lemma fields_from_split:
  "\<forall>c\<in>set a. \<not> f c \<Longrightarrow> f x \<Longrightarrow>
     fields_from f acc (a @ x # b) =
       (if acc @ a = [] then [] else [acc @ a]) @ fields_from f [] b"
  by (induction a arbitrary: acc) simp_all

lemma FieldsFunc_no_separator:
  "\<forall>c\<in>set s. \<not> f c \<Longrightarrow> length (FieldsFunc s f) < 2"
  by (simp add: FieldsFunc_def fields_from_plain)

lemma FieldsFunc_two:
  assumes "\<forall>c\<in>set a. \<not> f c" and "a \<noteq> []" and "f x" and "\<forall>c\<in>set b. \<not> f c" and "b \<noteq> []"
  shows "FieldsFunc (a @ x # b) f = [a, b]"
  using assms by (simp add: FieldsFunc_def fields_from_split fields_from_plain)

lemma FieldsFunc_first:
  "\<exists>c\<in>set s. \<not> f c \<Longrightarrow>
     FieldsFunc s f \<noteq> [] \<and>
     FieldsFunc s f ! 0 = takeWhile (\<lambda>c. \<not> f c) (dropWhile f s)"
  using fields_from_empty_iff [of f s] fields_from_hd [of s f]
  by (auto simp: FieldsFunc_def hd_conv_nth)

section \<open>Paths and patterns\<close>

lemma Join_three:
  "s \<noteq> [] \<Longrightarrow> n \<noteq> [] \<Longrightarrow> Join [d, s, n] = Join [d, s] @ CHR ''/'' # n"
  by (cases "d = []") (simp_all add: Join_def)

lemma Join_two_nonempty: "s \<noteq> [] \<Longrightarrow> Join [d, s] \<noteq> []"
  by (cases "d = []") (simp_all add: Join_def)

lemma Join_pair: "p \<noteq> [] \<Longrightarrow> n \<noteq> [] \<Longrightarrow> Join [p, n] = p @ CHR ''/'' # n"
  by (simp add: Join_def)

lemma Join_new_cur: "Join [d, ''new''] \<noteq> Join [d, ''cur'']"
  by (cases "d = []") (simp_all add: Join_def)

lemma Split_slash:
  "CHR ''/'' \<notin> set n \<Longrightarrow> Split (p @ CHR ''/'' # n) = (p @ ''/'', n)"
proof -
  assume n: "CHR ''/'' \<notin> set n"
  have "takeWhile (\<lambda>c. c \<noteq> CHR ''/'') (rev n @ CHR ''/'' # rev p) = rev n"
    using n by (auto simp: takeWhile_tail)
  then show ?thesis
    by (simp add: Split_def)
qed

lemma dir_of_slash:
  "CHR ''/'' \<notin> set n \<Longrightarrow> p \<noteq> [] \<Longrightarrow> dir_of (p @ CHR ''/'' # n) = p"
  by (simp add: dir_of_def Split_slash cleanGlobPath_def)

lemma base_of_slash: "CHR ''/'' \<notin> set n \<Longrightarrow> base_of (p @ CHR ''/'' # n) = n"
  by (simp add: base_of_def Split_slash)

lemma hasMeta_append: "hasMeta (p @ q) \<longleftrightarrow> hasMeta p \<or> hasMeta q"
  by (auto simp: hasMeta_def list_ex_iff)

lemma hasMeta_Join_cur: "\<not> hasMeta d \<Longrightarrow> \<not> hasMeta (Join [d, ''cur''])"
  by (cases "d = []") (simp_all add: Join_def hasMeta_append, simp_all add: hasMeta_def)

text \<open>A path without metacharacter is a pattern of literals.\<close>

lemma parse_pattern_plain:
  "\<not> hasMeta p \<Longrightarrow> parse_pattern (p @ q) = map_option ((@) (map Lit p)) (parse_pattern q)"
proof (induction p)
  case Nil
  show ?case by (simp add: option.map_ident)
next
  case (Cons c p)
  then have "\<not> hasMeta p" and c: "c \<noteq> CHR ''*''" "c \<noteq> CHR ''?''" "c \<noteq> CHR ''[''" "c \<noteq> CHR 0x5C"
    by (auto simp: hasMeta_def)
  with Cons.IH show ?case
    by (simp add: parse_pattern.simps(2) option.map_comp comp_def)
qed

lemma parse_pattern_star: "parse_pattern ''*'' = Some [Star]"
  by (simp add: parse_pattern.simps(2))

lemma parse_pattern_plain_star:
  "\<not> hasMeta p \<Longrightarrow> parse_pattern (p @ ''*'') = Some (map Lit p @ [Star])"
  by (simp add: parse_pattern_plain parse_pattern_star)

lemma match_terms_star: "match_terms [Star] s \<longleftrightarrow> CHR ''/'' \<notin> set s"
  by (induction s) auto

lemma match_terms_literals:
  "match_terms (map Lit p @ ts) s \<longleftrightarrow> prefix p s \<and> match_terms ts (drop (length p) s)"
proof (induction p arbitrary: s)
  case Nil
  show ?case by simp
next
  case (Cons c p)
  show ?case
    by (cases s) (auto simp: Cons.IH)
qed

lemma Match_plain_star:
  "\<not> hasMeta key \<Longrightarrow> CHR ''/'' \<notin> set n \<Longrightarrow> Match (key @ ''*'') n = (prefix key n, None)"
  by (auto simp: Match_def parse_pattern_plain_star match_terms_literals match_terms_star
      dest: in_set_dropD)

lemma glob_names_plain:
  assumes "\<not> hasMeta key" and "\<forall>n\<in>set names. CHR ''/'' \<notin> set n"
  shows "glob_names dir (key @ ''*'') names m =
           (m @ map (\<lambda>n. Join [dir, n]) (filter (prefix key) names), None)"
  using assms(2)
proof (induction names arbitrary: m)
  case Nil
  show ?case by simp
next
  case (Cons n names)
  then show ?case
    by (simp add: Match_plain_star [OF assms(1)])
qed

text \<open>
  For a directory path and a key without metacharacter, the pattern of \<open>Filename\<close>
  is well-formed and splits into the directory \<open>cur\<close> and the element \<open>key*\<close>.
\<close>

lemma Glob_cur_reduce:
  assumes d: "\<not> hasMeta d" and key: "\<not> hasMeta key" "CHR ''/'' \<notin> set key"
  shows "Glob fs (Join [d, ''cur'', key @ ''*'']) = glob fs (Join [d, ''cur'']) (key @ ''*'') []"
proof -
  let ?cur = "Join [d, ''cur'']"
  have cur: "?cur \<noteq> []"
    by (simp add: Join_two_nonempty)
  have pat: "Join [d, ''cur'', key @ ''*''] = ?cur @ CHR ''/'' # (key @ ''*'')"
    by (simp add: Join_three)
  have "\<not> hasMeta (?cur @ CHR ''/'' # key)"
    using hasMeta_Join_cur [OF d] key(1) by (simp add: hasMeta_append) (simp add: hasMeta_def)
  then have "parse_pattern ((?cur @ CHR ''/'' # key) @ ''*'') \<noteq> None"
    using parse_pattern_plain_star [of "?cur @ CHR ''/'' # key"] by simp
  then have wf: "snd (Match (?cur @ CHR ''/'' # (key @ ''*'')) []) = None"
    by (auto simp: Match_def split: option.splits)
  have split: "Split (?cur @ CHR ''/'' # (key @ ''*'')) = (?cur @ ''/'', key @ ''*'')"
    using key(2) by (intro Split_slash) simp
  have clean: "cleanGlobPath (?cur @ ''/'') = ?cur"
    using cur by (simp add: cleanGlobPath_def)
  show ?thesis
    using wf by (cases "Match (?cur @ CHR ''/'' # (key @ ''*'')) []")
      (simp add: Glob_def pat split clean)
qed

text \<open>
  The glob of \<open>Filename\<close> for a key that is plain text: the paths of the entries of
  \<open>cur\<close> that start with the key, in sorted order.
\<close>

lemma Glob_cur_plain:
  assumes d: "\<not> hasMeta d" and key: "\<not> hasMeta key" "CHR ''/'' \<notin> set key"
    and "os_Open fs (Join [d, ''cur'']) = None"
    and "dirs fs (Join [d, ''cur'']) = Some names"
    and names: "\<forall>n\<in>set names. n \<noteq> [] \<and> CHR ''/'' \<notin> set n"
  shows "Glob fs (Join [d, ''cur'', key @ ''*'']) =
           (map (\<lambda>n. Join [d, ''cur''] @ CHR ''/'' # n) (filter (prefix key) (sort names)), None)"
proof -
  let ?cur = "Join [d, ''cur'']"
  have cur: "?cur \<noteq> []"
    by (simp add: Join_two_nonempty)
  have sorted_names: "\<forall>n\<in>set (sort names). CHR ''/'' \<notin> set n"
    using names by simp
  have "glob fs ?cur (key @ ''*'') [] =
          (map (\<lambda>n. Join [?cur, n]) (filter (prefix key) (sort names)), None)"
    using assms(4,5) glob_names_plain [OF key(1) sorted_names, of ?cur "[]"]
    by (simp add: glob_def Readdirnames_def)
  moreover have "map (\<lambda>n. Join [?cur, n]) (filter (prefix key) (sort names)) =
                 map (\<lambda>n. ?cur @ CHR ''/'' # n) (filter (prefix key) (sort names))"
    using names cur by (intro map_cong) (auto simp: Join_pair)
  ultimately show ?thesis
    by (simp add: Glob_cur_reduce [OF d key])
qed

text \<open>The definitions that evaluate a call on a concrete file system.\<close>

lemmas fs_eval = mk_fs_def os_Open_def Readdirnames_def Join_def os_Rename_def dir_of_def
  base_of_def Split_def cleanGlobPath_def FieldsFunc_def Let_def Glob_def glob_def Match_def
  parse_pattern.simps(2) class_ranges.simps

section \<open>Flags\<close>

text \<open>
  A resolved path without \<open>:\<close> has a single field, and \<open>split[1]\<close> is out of range.
\<close>

lemma Flags_no_separator_panics:
  assumes "Filename d fs key = (filename, None)" and "CHR '':'' \<notin> set filename"
  shows "Flags d fs key = Panic"
proof -
  have "length (FieldsFunc filename (\<lambda>r. r = CHR '':'')) < 2"
    using assms(2) by (intro FieldsFunc_no_separator) auto
  then show ?thesis
    using assms(1) by (simp add: Flags_def)
qed

text \<open>
  C3. The directory \<open>cur\<close> holds the file \<open>msg1\<close>, a name without separator. The key
  \<open>msg1\<close> resolves to \<open>Maildir/cur/msg1\<close>, and \<open>Flags\<close> then panics on \<open>split[1]\<close>,
  where an empty flag sequence and no error are due.
\<close>

theorem Flags_without_info_panics:
  "Filename ''Maildir'' (mk_fs [(''Maildir/new'', []), (''Maildir/cur'', [''msg1''])] []) ''msg1''
     = (''Maildir/cur/msg1'', None) \<and>
   Flags ''Maildir'' (mk_fs [(''Maildir/new'', []), (''Maildir/cur'', [''msg1''])] []) ''msg1''
     = Panic"
  by (simp add: Flags_def Filename_def fs_eval)

text \<open>
  What the switch of \<open>Flags\<close> does when the resolved path has a second field on
  splitting at \<open>:\<close>, here \<open>info\<close> (a field is never empty), for an ASCII path, on
  which the runes that the source sorts are the bytes: \<open>FlagError info False\<close> when
  \<open>info\<close> has fewer than two characters or its second character is not a comma,
  \<open>FlagError info True\<close> when it starts with \<open>1,\<close>, the characters after \<open>2,\<close> in
  ascending order when it starts with \<open>2,\<close>, and \<open>FlagError info False\<close> when it starts
  with any other character. The field is the info section of the file name only when
  the separator is \<open>:\<close>, the directory path holds no \<open>:\<close> and the info section is not
  empty.
\<close>

lemma Flags_second_field:
  assumes "Filename d fs key = (filename, None)"
    and "isASCII filename"
    and "FieldsFunc filename (\<lambda>r. r = CHR '':'') = seg # info # rest"
  shows "(length info < 2 \<or> info ! 1 \<noteq> CHR '','' \<longrightarrow>
            Flags d fs key = Return ([], Some (FlagError info False))) \<and>
         (2 \<le> length info \<and> info ! 1 = CHR '','' \<and> info ! 0 = CHR ''1'' \<longrightarrow>
            Flags d fs key = Return ([], Some (FlagError info True))) \<and>
         (2 \<le> length info \<and> info ! 1 = CHR '','' \<and> info ! 0 = CHR ''2'' \<longrightarrow>
            Flags d fs key = Return (sort (drop 2 info), None) \<and>
            sorted (sort (drop 2 info)) \<and> set (sort (drop 2 info)) = set (drop 2 info) \<and>
            length (sort (drop 2 info)) = length info - 2) \<and>
         (info \<noteq> [] \<and> info ! 0 \<noteq> CHR ''1'' \<and> info ! 0 \<noteq> CHR ''2'' \<longrightarrow>
            Flags d fs key = Return ([], Some (FlagError info False)))"
  using assms(1,3) by (auto simp: Flags_def Let_def)

lemma Flags_second_field_example:
  "Filename ''Maildir'' (mk_fs [(''Maildir/new'', []), (''Maildir/cur'', [''k:2,SR''])] []) ''k''
     = (''Maildir/cur/k:2,SR'', None) \<and>
   FieldsFunc ''Maildir/cur/k:2,SR'' (\<lambda>r. r = CHR '':'') = [''Maildir/cur/k'', ''2,SR''] \<and>
   Flags ''Maildir'' (mk_fs [(''Maildir/new'', []), (''Maildir/cur'', [''k:2,SR''])] []) ''k''
     = Return (''RS'', None)"
proof -
  let ?fs = "mk_fs [(''Maildir/new'', []), (''Maildir/cur'', [''k:2,SR''])] []"
  have f: "Filename ''Maildir'' ?fs ''k'' = (''Maildir/cur/k:2,SR'', None)"
    by (simp add: Filename_def fs_eval)
  have a: "isASCII ''Maildir/cur/k:2,SR''"
    by (simp add: isASCII_def)
  have s: "FieldsFunc ''Maildir/cur/k:2,SR'' (\<lambda>r. r = CHR '':'') = ''Maildir/cur/k'' # ''2,SR'' # []"
    by (simp add: FieldsFunc_def)
  show ?thesis
    using f s Flags_second_field [OF f a s] by simp
qed

text \<open>
  A file name that ends with the separator has an empty info section, and the path has a
  single field: the call of \<open>Flags\<close> panics. \<open>SetInfo\<close> with an empty info creates such
  a name.
\<close>

lemma Flags_trailing_separator_panics:
  assumes "Filename d fs key = (p @ '':'', None)" and "CHR '':'' \<notin> set p"
  shows "Flags d fs key = Panic"
proof -
  have "fields_from (\<lambda>r. r = CHR '':'') [] (p @ CHR '':'' # []) =
          (if [] @ p = [] then [] else [[] @ p]) @ fields_from (\<lambda>r. r = CHR '':'') [] []"
    using assms(2) by (intro fields_from_split) auto
  then have "length (FieldsFunc (p @ '':'') (\<lambda>r. r = CHR '':'')) < 2"
    by (simp add: FieldsFunc_def)
  then show ?thesis
    using assms(1) by (simp add: Flags_def)
qed

lemma SetInfo_empty_info_then_Flags_panics:
  "fst (SetInfo CHR '':'' ''Maildir''
          (mk_fs [(''Maildir/new'', []), (''Maildir/cur'', [''a:2,S''])] []) ''a'' '''') = None \<and>
   dirs (snd (SetInfo CHR '':'' ''Maildir''
          (mk_fs [(''Maildir/new'', []), (''Maildir/cur'', [''a:2,S''])] []) ''a'' ''''))
     ''Maildir/cur'' = Some [''a:''] \<and>
   Flags ''Maildir''
     (snd (SetInfo CHR '':'' ''Maildir''
          (mk_fs [(''Maildir/new'', []), (''Maildir/cur'', [''a:2,S''])] []) ''a'' '''')) ''a''
     = Panic"
  by (simp add: SetInfo_def Flags_def Filename_def fs_eval)

text \<open>
  \<open>Flags\<close> splits the whole resolved path: in a mailbox whose path holds a \<open>:\<close>, the
  second field is a piece of the path, and the file \<open>k:2,S\<close> is answered with a
  \<open>FlagError\<close> on that piece.
\<close>

lemma Flags_colon_in_directory:
  "Flags ''Mail:dir'' (mk_fs [(''Mail:dir/new'', []), (''Mail:dir/cur'', [''k:2,S''])] []) ''k''
     = Return ([], Some (FlagError ''dir/cur/k'' False))"
  by (simp add: Flags_def Filename_def fs_eval)

text \<open>
  C4. The directory \<open>cur\<close> holds the file \<open>a:\<close>: the key \<open>a\<close>, the separator and an
  empty info section, of a length below two. The key resolves to \<open>Maildir/cur/a:\<close>;
  \<open>strings.FieldsFunc\<close> drops the empty field after the separator, so \<open>split\<close> has a
  single element and \<open>Flags\<close> panics on \<open>split[1]\<close>, where \<open>FlagError\<close> with
  \<open>Experimental\<close> false is due.
\<close>

theorem Flags_empty_info_panics:
  "Filename ''Maildir'' (mk_fs [(''Maildir/new'', []), (''Maildir/cur'', [''a:''])] []) ''a''
     = (''Maildir/cur/a:'', None) \<and>
   FieldsFunc ''Maildir/cur/a:'' (\<lambda>r. r = CHR '':'') = [''Maildir/cur/a''] \<and>
   Flags ''Maildir'' (mk_fs [(''Maildir/new'', []), (''Maildir/cur'', [''a:''])] []) ''a''
     = Panic \<and>
   Flags ''Maildir'' (mk_fs [(''Maildir/new'', []), (''Maildir/cur'', [''a:''])] []) ''a''
     \<noteq> Return ([], Some (FlagError '''' False))"
  by (simp add: Flags_def Filename_def fs_eval)

section \<open>Filename\<close>

lemma Filename_glob_error:
  "Glob fs (Join [d, ''cur'', key @ ''*'']) = (matches, Some e) \<Longrightarrow>
     Filename d fs key = ('''', Some e)"
  by (simp add: Filename_def)

text \<open>
  C7, as it is stated, fails on a key that is no well-formed pattern: for the key \<open>[\<close>
  the glob reports \<open>ErrBadPattern\<close>, and \<open>Filename\<close> returns that error, which is
  neither a path nor a \<open>KeyError\<close>.
\<close>

theorem Filename_bad_pattern_counterexample:
  "Filename ''Maildir'' (mk_fs [(''Maildir/new'', []), (''Maildir/cur'', [''a:2,S''])] []) ''[''
     = ('''', Some ErrBadPattern) \<and>
   Filename ''Maildir'' (mk_fs [(''Maildir/new'', []), (''Maildir/cur'', [''a:2,S''])] []) ''[''
     \<noteq> ('''', Some (KeyError ''['' 0))"
  by (simp add: Filename_def fs_eval)

text \<open>
  C7, amended. Whenever the glob of the pattern \<open>key*\<close> in \<open>cur\<close> reports no error,
  with \<open>N\<close> the number of its matches: \<open>Filename\<close> returns the single match and no
  error when \<open>N = 1\<close>, and the error \<open>KeyError key N\<close> with an empty path otherwise; it
  never picks the first of several matches.
\<close>

theorem Filename_single_match_or_KeyError:
  assumes "Glob fs (Join [d, ''cur'', key @ ''*'']) = (matches, None)"
  shows "Filename d fs key =
           (if length matches = 1 then (matches ! 0, None)
            else ('''', Some (KeyError key (int (length matches)))))"
  using assms by (simp add: Filename_def Let_def)

theorem Filename_single_match_or_KeyError_witness:
  "Glob (mk_fs [(''Maildir/new'', []), (''Maildir/cur'', [''key2:2,S'', ''m'', ''key:2,S''])] [])
     (Join [''Maildir'', ''cur'', ''key'' @ ''*''])
     = ([''Maildir/cur/key2:2,S'', ''Maildir/cur/key:2,S''], None) \<and>
   Filename ''Maildir''
     (mk_fs [(''Maildir/new'', []), (''Maildir/cur'', [''key2:2,S'', ''m'', ''key:2,S''])] []) ''key''
     = ('''', Some (KeyError ''key'' 2))"
proof -
  let ?fs = "mk_fs [(''Maildir/new'', []), (''Maildir/cur'', [''key2:2,S'', ''m'', ''key:2,S''])] []"
  have g: "Glob ?fs (Join [''Maildir'', ''cur'', ''key'' @ ''*''])
             = ([''Maildir/cur/key2:2,S'', ''Maildir/cur/key:2,S''], None)"
    by (simp add: fs_eval)
  show ?thesis
    using g Filename_single_match_or_KeyError [OF g] by simp
qed

section \<open>Keys\<close>

text \<open>
  C8. With the separator configured as \<open>;\<close>, \<open>Unseen\<close> moves the new message \<open>k\<close>
  to \<open>cur\<close> under the name \<open>k;2,S\<close>. \<open>Keys\<close> splits at \<open>:\<close>, whatever the
  configured separator, and returns the whole name \<open>k;2,S\<close> where the key \<open>k\<close>, the
  text before the configured separator, is due.
\<close>

theorem Keys_ignores_configured_separator:
  "fst (Unseen CHR '';'' ''Maildir'' (mk_fs [(''Maildir/new'', [''k'']), (''Maildir/cur'', [])] []))
     = Return ([''k''], None) \<and>
   Keys ''Maildir''
     (snd (Unseen CHR '';'' ''Maildir'' (mk_fs [(''Maildir/new'', [''k'']), (''Maildir/cur'', [])] [])))
     = Return ([''k;2,S''], None)"
  by (simp add: Unseen_def Keys_def fs_eval)

section \<open>Unseen\<close>

text \<open>
  C5. The directory \<open>new\<close> lists \<open>a\<close> and then \<open>b\<close>; the rename of \<open>a\<close> is refused
  and the rename of \<open>b\<close> succeeds. The second rename overwrites \<open>err\<close>: \<open>Unseen\<close>
  returns both keys and a nil error, where the error of the first rename is due.
\<close>

theorem Unseen_swallows_rename_error:
  "os_Rename
     (mk_fs [(''Maildir/new'', [''a'', ''b'']), (''Maildir/cur'', [])]
        [(''Maildir/new/a'', IOFailure ''permission denied'')])
     ''Maildir/new/a'' ''Maildir/cur/a:2,S''
     = (Some (IOFailure ''permission denied''),
        mk_fs [(''Maildir/new'', [''a'', ''b'']), (''Maildir/cur'', [])]
          [(''Maildir/new/a'', IOFailure ''permission denied'')]) \<and>
   fst (Unseen CHR '':'' ''Maildir''
     (mk_fs [(''Maildir/new'', [''a'', ''b'']), (''Maildir/cur'', [])]
        [(''Maildir/new/a'', IOFailure ''permission denied'')]))
     = Return ([''a'', ''b''], None)"
  by (simp add: Unseen_def fs_eval)

text \<open>
  C6. The directory \<open>new\<close> holds the plain-key files \<open>m1\<close> and \<open>m2\<close>, and \<open>cur\<close> is
  empty; the rename of \<open>m1\<close> is refused. \<open>Unseen\<close> returns a nil error (the failure is
  overwritten, as in C5), yet \<open>m1\<close> is still in \<open>new\<close> and absent from \<open>cur\<close>,
  where an empty \<open>new\<close> and both files in \<open>cur\<close> are due after a success.
\<close>

theorem Unseen_success_leaves_file_in_new:
  "fst (Unseen CHR '':'' ''Maildir''
     (mk_fs [(''Maildir/new'', [''m1'', ''m2'']), (''Maildir/cur'', [])]
        [(''Maildir/new/m1'', IOFailure ''permission denied'')]))
     = Return ([''m1'', ''m2''], None) \<and>
   dirs (snd (Unseen CHR '':'' ''Maildir''
     (mk_fs [(''Maildir/new'', [''m1'', ''m2'']), (''Maildir/cur'', [])]
        [(''Maildir/new/m1'', IOFailure ''permission denied'')]))) ''Maildir/new''
     = Some [''m1''] \<and>
   dirs (snd (Unseen CHR '':'' ''Maildir''
     (mk_fs [(''Maildir/new'', [''m1'', ''m2'']), (''Maildir/cur'', [])]
        [(''Maildir/new/m1'', IOFailure ''permission denied'')]))) ''Maildir/cur''
     = Some [''m2:2,S'']"
  by (simp add: Unseen_def fs_eval)

text \<open>
  The keys that the loop of \<open>Unseen\<close> returns do not depend on the renames: each name
  that does not start with a dot contributes its first field, whatever \<open>os.Rename\<close>
  answers.
\<close>

lemma Unseen_loop_keys:
  assumes "\<forall>n\<in>set names. n \<noteq> [] \<and> (hd n \<noteq> CHR ''.'' \<longrightarrow> (\<exists>c\<in>set n. c \<noteq> Separator))"
  shows "\<exists>err' fs'. Unseen_loop Separator d names keys err fs =
           (Return (keys @ map (\<lambda>n. takeWhile (\<lambda>c. c \<noteq> Separator)
                                      (dropWhile (\<lambda>c. c = Separator) n))
                            (filter (\<lambda>n. hd n \<noteq> CHR ''.'') names), err'), fs')"
  using assms
proof (induction names arbitrary: keys err fs)
  case Nil
  show ?case by simp
next
  case (Cons n names)
  from Cons.prems have n: "n \<noteq> []" and rest:
    "\<forall>n\<in>set names. n \<noteq> [] \<and> (hd n \<noteq> CHR ''.'' \<longrightarrow> (\<exists>c\<in>set n. c \<noteq> Separator))"
    by simp_all
  from n have hd: "n ! 0 = hd n"
    by (simp add: hd_conv_nth)
  show ?case
  proof (cases "hd n = CHR ''.''")
    case True
    with n hd Cons.IH [OF rest, of keys err fs] show ?thesis by simp
  next
    case False
    with Cons.prems have "\<exists>c\<in>set n. \<not> (\<lambda>r. r = Separator) c" by simp
    from FieldsFunc_first [OF this]
    have ne: "FieldsFunc n (\<lambda>r. r = Separator) \<noteq> []"
      and first: "FieldsFunc n (\<lambda>r. r = Separator) ! 0 =
                    takeWhile (\<lambda>c. c \<noteq> Separator) (dropWhile (\<lambda>c. c = Separator) n)"
      by simp_all
    obtain e1 fs1 where r: "os_Rename fs (Join [d, ''new'', n])
                              (Join [d, ''cur'', n @ [Separator] @ ''2,S'']) = (e1, fs1)"
      by (cases "os_Rename fs (Join [d, ''new'', n]) (Join [d, ''cur'', n @ [Separator] @ ''2,S''])")
    from Cons.IH [OF rest, of "keys @ [FieldsFunc n (\<lambda>r. r = Separator) ! 0]" e1 fs1]
    show ?thesis
      using n hd False ne first r by (simp add: Let_def)
  qed
qed

text \<open>
  C10. When \<open>new\<close> can be listed and each of its names has a key (no name is empty or
  made of separators only), \<open>Unseen\<close> returns, whether the renames succeed or fail, the
  list of the keys of all the names that do not start with a dot, in the order of the
  listing: the key of a name is appended before its rename is attempted, and no result
  of a rename removes it.
\<close>

theorem Unseen_returns_every_key:
  assumes "os_Open fs (Join [d, ''new'']) = None"
    and "dirs fs (Join [d, ''new'']) = Some names"
    and "\<forall>n\<in>set names. n \<noteq> [] \<and> (hd n \<noteq> CHR ''.'' \<longrightarrow> (\<exists>c\<in>set n. c \<noteq> Separator))"
  shows "\<exists>err fs'. Unseen Separator d fs =
           (Return (map (\<lambda>n. takeWhile (\<lambda>c. c \<noteq> Separator)
                                (dropWhile (\<lambda>c. c = Separator) n))
                      (filter (\<lambda>n. hd n \<noteq> CHR ''.'') names), err), fs')"
  using assms(1,2) Unseen_loop_keys [OF assms(3), where d = d and keys = "[]" and err = None and fs = fs]
  by (simp add: Unseen_def Readdirnames_def)

theorem Unseen_returns_every_key_witness:
  "os_Open (mk_fs [(''Maildir/new'', [''x'', ''.tmp'', ''y:1,'']), (''Maildir/cur'', [])]
              [(''Maildir/new/x'', IOFailure ''permission denied''),
               (''Maildir/new/y:1,'', IOFailure ''permission denied'')])
     (Join [''Maildir'', ''new'']) = None \<and>
   os_Rename (mk_fs [(''Maildir/new'', [''x'', ''.tmp'', ''y:1,'']), (''Maildir/cur'', [])]
              [(''Maildir/new/x'', IOFailure ''permission denied''),
               (''Maildir/new/y:1,'', IOFailure ''permission denied'')])
     ''Maildir/new/x'' ''Maildir/cur/x:2,S''
     = (Some (IOFailure ''permission denied''),
        mk_fs [(''Maildir/new'', [''x'', ''.tmp'', ''y:1,'']), (''Maildir/cur'', [])]
              [(''Maildir/new/x'', IOFailure ''permission denied''),
               (''Maildir/new/y:1,'', IOFailure ''permission denied'')]) \<and>
   (\<exists>err fs'.
      Unseen CHR '':'' ''Maildir''
        (mk_fs [(''Maildir/new'', [''x'', ''.tmp'', ''y:1,'']), (''Maildir/cur'', [])]
              [(''Maildir/new/x'', IOFailure ''permission denied''),
               (''Maildir/new/y:1,'', IOFailure ''permission denied'')])
      = (Return ([''x'', ''y''], err), fs'))"
proof -
  let ?fs = "mk_fs [(''Maildir/new'', [''x'', ''.tmp'', ''y:1,'']), (''Maildir/cur'', [])]
              [(''Maildir/new/x'', IOFailure ''permission denied''),
               (''Maildir/new/y:1,'', IOFailure ''permission denied'')]"
  have o: "os_Open ?fs (Join [''Maildir'', ''new'']) = None"
    by (simp add: fs_eval)
  have l: "dirs ?fs (Join [''Maildir'', ''new'']) = Some [''x'', ''.tmp'', ''y:1,'']"
    by (simp add: fs_eval)
  have n: "\<forall>n\<in>set [''x'', ''.tmp'', ''y:1,'']. n \<noteq> [] \<and> (hd n \<noteq> CHR ''.'' \<longrightarrow> (\<exists>c\<in>set n. c \<noteq> CHR '':''))"
    by simp
  have r: "os_Rename ?fs ''Maildir/new/x'' ''Maildir/cur/x:2,S''
             = (Some (IOFailure ''permission denied''), ?fs)"
    by (simp add: fs_eval)
  show ?thesis
    using o r Unseen_returns_every_key [OF o l n] by simp
qed

section \<open>Unseen when no rename is refused\<close>

lemma Unseen_loop_moves:
  assumes sep: "Separator \<noteq> CHR ''/''"
    and nofault: "\<forall>n\<in>set names. fault fs (Join [d, ''new'', n]) = None \<and>
                    fault fs (Join [d, ''cur'', n @ [Separator] @ ''2,S'']) = None"
    and new: "dirs fs (Join [d, ''new'']) = Some names"
    and cur: "dirs fs (Join [d, ''cur'']) = Some cs"
    and dist: "distinct names"
    and plain: "\<forall>n\<in>set names. n \<noteq> [] \<and> hd n \<noteq> CHR ''.'' \<and> Separator \<notin> set n \<and> CHR ''/'' \<notin> set n"
    and fresh: "\<forall>n\<in>set names. n @ [Separator] @ ''2,S'' \<notin> set cs"
  shows "Unseen_loop Separator d names keys err fs =
           (Return (keys @ names, if names = [] then err else None),
            fs\<lparr>dirs := (dirs fs)(Join [d, ''new''] := Some [],
                   Join [d, ''cur''] := Some (cs @ map (\<lambda>n. n @ [Separator] @ ''2,S'') names))\<rparr>)"
  using nofault new cur dist plain fresh
proof (induction names arbitrary: keys err fs cs)
  case Nil
  then have e: "(dirs fs)(Join [d, ''new''] := Some [],
      Join [d, ''cur''] := Some (cs @ map (\<lambda>n. n @ [Separator] @ ''2,S'') [])) = dirs fs"
    by (auto simp: fun_eq_iff)
  show ?case
    unfolding Unseen_loop.simps e by simp
next
  case (Cons n rest)
  let ?N = "Join [d, ''new'']"
  let ?C = "Join [d, ''cur'']"
  let ?t = "n @ [Separator] @ ''2,S''"
  have NC: "?N \<noteq> ?C" by (rule Join_new_cur)
  from Cons.prems have n: "n \<noteq> []" "hd n \<noteq> CHR ''.''" "Separator \<notin> set n" "CHR ''/'' \<notin> set n"
    and nrest: "n \<notin> set rest" and drest: "distinct rest"
    and tfresh: "?t \<notin> set cs"
    and f1: "fault fs (Join [d, ''new'', n]) = None" and f2: "fault fs (Join [d, ''cur'', ?t]) = None"
    by simp_all
  have tslash: "CHR ''/'' \<notin> set ?t"
    using n(4) sep by simp
  have hd: "n ! 0 \<noteq> CHR ''.''"
    using n by (simp add: hd_conv_nth)
  have fields: "FieldsFunc n (\<lambda>r. r = Separator) = [n]"
  proof -
    have "\<forall>c\<in>set n. \<not> (\<lambda>r. r = Separator) c"
      using n(3) by auto
    from fields_from_plain [OF this, of "[]"] n(1) show ?thesis
      by (simp add: FieldsFunc_def)
  qed
  have old: "Join [d, ''new'', n] = ?N @ CHR ''/'' # n" and tgt: "Join [d, ''cur'', ?t] = ?C @ CHR ''/'' # ?t"
    using n by (simp_all add: Join_three)
  have Nne: "?N \<noteq> []" and Cne: "?C \<noteq> []"
    by (simp_all add: Join_two_nonempty)
  let ?fs1 = "fs\<lparr>dirs := (dirs fs)(?N := Some rest, ?C := Some (cs @ [?t]))\<rparr>"
  have ren: "os_Rename fs (Join [d, ''new'', n]) (Join [d, ''cur'', ?t]) = (None, ?fs1)"
    using f1 f2 Cons.prems(2,3) nrest tfresh NC
    unfolding old tgt os_Rename_def dir_of_slash [OF n(4) Nne] dir_of_slash [OF tslash Cne]
      base_of_slash [OF n(4)] base_of_slash [OF tslash]
    by (simp add: Let_def)
  have ih: "Unseen_loop Separator d rest (keys @ [n]) None ?fs1 =
              (Return ((keys @ [n]) @ rest, if rest = [] then None else None),
               ?fs1\<lparr>dirs := (dirs ?fs1)(?N := Some [],
                   ?C := Some ((cs @ [?t]) @ map (\<lambda>n. n @ [Separator] @ ''2,S'') rest))\<rparr>)"
  proof (rule Cons.IH)
    show "\<forall>n\<in>set rest. fault ?fs1 (Join [d, ''new'', n]) = None \<and>
            fault ?fs1 (Join [d, ''cur'', n @ [Separator] @ ''2,S'']) = None"
      using Cons.prems(1) by simp
    show "dirs ?fs1 ?N = Some rest" using NC by simp
    show "dirs ?fs1 ?C = Some (cs @ [?t])" by simp
    show "distinct rest" by (rule drest)
    show "\<forall>n\<in>set rest. n \<noteq> [] \<and> hd n \<noteq> CHR ''.'' \<and> Separator \<notin> set n \<and> CHR ''/'' \<notin> set n"
      using Cons.prems(5) by simp
    show "\<forall>m\<in>set rest. m @ [Separator] @ ''2,S'' \<notin> set (cs @ [?t])"
      using Cons.prems(6) nrest by auto
  qed
  have upd: "(dirs ?fs1)(?N := Some [], ?C := Some ((cs @ [?t]) @ map (\<lambda>n. n @ [Separator] @ ''2,S'') rest))
           = (dirs fs)(?N := Some [], ?C := Some (cs @ map (\<lambda>n. n @ [Separator] @ ''2,S'') (n # rest)))"
    by (auto simp: fun_eq_iff)
  have step: "Unseen_loop Separator d (n # rest) keys err fs =
                Unseen_loop Separator d rest (keys @ [n]) None ?fs1"
    using n(1) hd fields ren by (simp add: Let_def)
  show ?case
    unfolding step ih upd
    by (simp, rule filesys.equality, simp_all add: fun_eq_iff)
qed

text \<open>
  The statement of C6 holds when no rename is refused: with the listed names of \<open>new\<close>
  plain keys that do not start with a dot and \<open>cur\<close> empty, \<open>Unseen\<close> returns the names
  as keys and a nil error, leaves \<open>new\<close> empty and \<open>cur\<close> with each name followed by
  the separator and \<open>2,S\<close>.
\<close>

lemma Unseen_moves_all:
  assumes "Separator \<noteq> CHR ''/''"
    and "fault fs (Join [d, ''new'']) = None"
    and "\<forall>n\<in>set names. fault fs (Join [d, ''new'', n]) = None \<and>
            fault fs (Join [d, ''cur'', n @ [Separator] @ ''2,S'']) = None"
    and "dirs fs (Join [d, ''new'']) = Some names"
    and "dirs fs (Join [d, ''cur'']) = Some []"
    and "distinct names"
    and "\<forall>n\<in>set names. n \<noteq> [] \<and> hd n \<noteq> CHR ''.'' \<and> Separator \<notin> set n \<and> CHR ''/'' \<notin> set n"
  shows "Unseen Separator d fs =
           (Return (names, None),
            fs\<lparr>dirs := (dirs fs)(Join [d, ''new''] := Some [],
                   Join [d, ''cur''] := Some (map (\<lambda>n. n @ [Separator] @ ''2,S'') names))\<rparr>)"
  using assms(2,4) Unseen_loop_moves [OF assms(1,3,4,5,6,7), of "[]" None]
  by (simp add: Unseen_def os_Open_def Readdirnames_def)

text \<open>The lemma at the two files \<open>a\<close> and \<open>b\<close> of the specification's example.\<close>

lemma Unseen_moves_all_example:
  "fst (Unseen CHR '':'' ''Maildir'' (mk_fs [(''Maildir/new'', [''a'', ''b'']), (''Maildir/cur'', [])] []))
     = Return ([''a'', ''b''], None) \<and>
   dirs (snd (Unseen CHR '':'' ''Maildir''
     (mk_fs [(''Maildir/new'', [''a'', ''b'']), (''Maildir/cur'', [])] []))) ''Maildir/new'' = Some [] \<and>
   dirs (snd (Unseen CHR '':'' ''Maildir''
     (mk_fs [(''Maildir/new'', [''a'', ''b'']), (''Maildir/cur'', [])] []))) ''Maildir/cur''
     = Some [''a:2,S'', ''b:2,S'']"
proof -
  let ?fs = "mk_fs [(''Maildir/new'', [''a'', ''b'']), (''Maildir/cur'', [])] []"
  have new: "dirs ?fs (Join [''Maildir'', ''new'']) = Some [''a'', ''b'']"
    and cur: "dirs ?fs (Join [''Maildir'', ''cur'']) = Some []"
    by (simp_all add: fs_eval)
  have "Unseen CHR '':'' ''Maildir'' ?fs =
          (Return ([''a'', ''b''], None),
           ?fs\<lparr>dirs := (dirs ?fs)(Join [''Maildir'', ''new''] := Some [],
                   Join [''Maildir'', ''cur''] := Some (map (\<lambda>n. n @ [CHR '':''] @ ''2,S'') [''a'', ''b'']))\<rparr>)"
    by (rule Unseen_moves_all [OF _ _ _ new cur]) (simp_all add: mk_fs_def)
  then show ?thesis
    by (simp add: Join_def)
qed

section \<open>SetInfo followed by Flags\<close>

lemma glob_unreadable:
  "os_Open fs dir \<noteq> None \<Longrightarrow> glob fs dir pattern m = (m, None)"
  by (simp add: glob_def)

text \<open>
  When \<open>Filename\<close> resolves a plain key, \<open>cur\<close> can be read and exactly one of its
  names starts with the key.
\<close>

lemma Filename_plain_resolved:
  assumes d: "\<not> hasMeta d" and key: "\<not> hasMeta key" "CHR ''/'' \<notin> set key"
    and names: "dirs fs (Join [d, ''cur'']) = Some names"
      "\<forall>n\<in>set names. n \<noteq> [] \<and> CHR ''/'' \<notin> set n"
    and res: "Filename d fs key = (filename, None)"
  shows "os_Open fs (Join [d, ''cur'']) = None \<and>
         (\<exists>n. filter (prefix key) (sort names) = [n] \<and> filename = Join [d, ''cur''] @ CHR ''/'' # n)"
proof -
  let ?cur = "Join [d, ''cur'']"
  have op: "os_Open fs ?cur = None"
  proof (rule ccontr)
    assume "os_Open fs ?cur \<noteq> None"
    then have "Glob fs (Join [d, ''cur'', key @ ''*'']) = ([], None)"
      by (simp add: Glob_cur_reduce [OF d key] glob_unreadable)
    with res show False
      by (simp add: Filename_def)
  qed
  let ?ms = "filter (prefix key) (sort names)"
  have g: "Glob fs (Join [d, ''cur'', key @ ''*'']) = (map (\<lambda>n. ?cur @ CHR ''/'' # n) ?ms, None)"
    using Glob_cur_plain [OF d key op names] .
  from res have len: "length ?ms = 1" and f: "filename = map (\<lambda>n. ?cur @ CHR ''/'' # n) ?ms ! 0"
    by (auto simp: Filename_def g Let_def split: if_splits)
  from len obtain n where n: "?ms = [n]"
    by (cases ?ms) auto
  with f op show ?thesis by simp
qed

lemma Filename_plain_single:
  assumes d: "\<not> hasMeta d" and key: "\<not> hasMeta key" "CHR ''/'' \<notin> set key"
    and op: "os_Open fs (Join [d, ''cur'']) = None"
    and names: "dirs fs (Join [d, ''cur'']) = Some names"
      "\<forall>n\<in>set names. n \<noteq> [] \<and> CHR ''/'' \<notin> set n"
    and one: "filter (prefix key) (sort names) = [n]"
  shows "Filename d fs key = (Join [d, ''cur''] @ CHR ''/'' # n, None)"
  using Glob_cur_plain [OF d key op names] one by (simp add: Filename_def)

lemma colon_Join_cur: "CHR '':'' \<notin> set d \<Longrightarrow> CHR '':'' \<notin> set (Join [d, ''cur''])"
  by (cases "d = []") (simp_all add: Join_def)

text \<open>
  With the separator \<open>:\<close>, a directory path and a key that are plain text without
  \<open>:\<close>, and flags without \<open>:\<close> and \<open>/\<close>: after a successful \<open>SetInfo\<close> of the info
  \<open>2,\<close> followed by the flags in any order, \<open>Flags\<close> returns the flags sorted.
\<close>

lemma SetInfo_then_Flags:
  assumes d: "\<not> hasMeta d" "CHR '':'' \<notin> set d"
    and key: "\<not> hasMeta key" "CHR ''/'' \<notin> set key" "CHR '':'' \<notin> set key"
    and flags: "CHR ''/'' \<notin> set flags" "CHR '':'' \<notin> set flags"
    and names: "dirs fs (Join [d, ''cur'']) = Some names"
      "\<forall>n\<in>set names. n \<noteq> [] \<and> CHR ''/'' \<notin> set n"
    and ok: "fst (SetInfo CHR '':'' d fs key (''2,'' @ flags)) = None"
  shows "Flags d (snd (SetInfo CHR '':'' d fs key (''2,'' @ flags))) key = Return (sort flags, None)"
proof -
  let ?cur = "Join [d, ''cur'']"
  let ?t = "key @ [CHR '':''] @ ''2,'' @ flags"
  let ?fs' = "snd (SetInfo CHR '':'' d fs key (''2,'' @ flags))"
  have cur: "?cur \<noteq> []"
    by (simp add: Join_two_nonempty)
  obtain filename err where F: "Filename d fs key = (filename, err)"
    by (cases "Filename d fs key")
  with ok have err: "err = None"
    by (cases err) (simp_all add: SetInfo_def)
  from Filename_plain_resolved [OF d(1) key(1,2) names F [unfolded err]]
  obtain n where op: "os_Open fs ?cur = None"
    and one: "filter (prefix key) (sort names) = [n]"
    and fn: "filename = ?cur @ CHR ''/'' # n"
    by blast
  from one have "n \<in> set (filter (prefix key) (sort names))" by simp
  then have n: "n \<in> set names" "prefix key n" by simp_all
  with names(2) have nslash: "CHR ''/'' \<notin> set n" by blast
  have only: "\<And>x. x \<in> set names \<Longrightarrow> prefix key x \<Longrightarrow> x = n"
  proof -
    fix x assume "x \<in> set names" "prefix key x"
    then have "x \<in> set (filter (prefix key) (sort names))" by simp
    with one show "x = n" by simp
  qed
  have tslash: "CHR ''/'' \<notin> set ?t"
    using key(2) flags(1) by simp
  have target: "Join [d, ''cur'', ?t] = ?cur @ CHR ''/'' # ?t"
    by (simp add: Join_three)
  have R: "SetInfo CHR '':'' d fs key (''2,'' @ flags) = os_Rename fs (?cur @ CHR ''/'' # n) (?cur @ CHR ''/'' # ?t)"
    using F err fn target by (simp add: SetInfo_def)
  have dirs': "dirs ?fs' ?cur = Some (removeAll ?t (removeAll n names) @ [?t])"
    and fault': "fault ?fs' = fault fs"
    using ok names(1) cur
    unfolding R os_Rename_def dir_of_slash [OF nslash cur] dir_of_slash [OF tslash cur]
      base_of_slash [OF nslash] base_of_slash [OF tslash]
    by (auto simp: Let_def split: option.splits if_splits)
  let ?names' = "removeAll ?t (removeAll n names) @ [?t]"
  have op': "os_Open ?fs' ?cur = None"
    using op dirs' fault' by (auto simp: os_Open_def split: option.splits)
  have names': "\<forall>x\<in>set ?names'. x \<noteq> [] \<and> CHR ''/'' \<notin> set x"
    using names(2) tslash by auto
  have "filter (prefix key) (removeAll ?t (removeAll n names)) = []"
    using only by (auto simp: filter_empty_conv)
  then have "filter (prefix key) ?names' = [?t]"
    by simp
  then have one': "filter (prefix key) (sort ?names') = [?t]"
    by (simp only: filter_sort) simp
  have F': "Filename d ?fs' key = (?cur @ CHR ''/'' # ?t, None)"
    using Filename_plain_single [OF d(1) key(1,2) op' dirs' names' one'] .
  have "FieldsFunc ((?cur @ CHR ''/'' # key) @ CHR '':'' # (''2,'' @ flags)) (\<lambda>r. r = CHR '':'')
          = [?cur @ CHR ''/'' # key, ''2,'' @ flags]"
    using colon_Join_cur [OF d(2)] key(3) flags(2)
    by (intro FieldsFunc_two) auto
  then have split: "FieldsFunc (?cur @ CHR ''/'' # ?t) (\<lambda>r. r = CHR '':'')
          = [?cur @ CHR ''/'' # key, ''2,'' @ flags]"
    by simp
  show ?thesis
    by (simp add: Flags_def F' split Let_def del: append.simps) (simp add: nth_append)
qed

text \<open>The lemma at the flags \<open>SR\<close>, written in descending order: \<open>Flags\<close> returns \<open>RS\<close>.\<close>

lemma SetInfo_then_Flags_example:
  "fst (SetInfo CHR '':'' ''Maildir''
          (mk_fs [(''Maildir/new'', []), (''Maildir/cur'', [''m'', ''k:2,S''])] []) ''k'' ''2,SR'') = None \<and>
   Flags ''Maildir''
     (snd (SetInfo CHR '':'' ''Maildir''
          (mk_fs [(''Maildir/new'', []), (''Maildir/cur'', [''m'', ''k:2,S''])] []) ''k'' ''2,SR'')) ''k''
     = Return (''RS'', None)"
proof -
  let ?fs = "mk_fs [(''Maildir/new'', []), (''Maildir/cur'', [''m'', ''k:2,S''])] []"
  have ok: "fst (SetInfo CHR '':'' ''Maildir'' ?fs ''k'' (''2,'' @ ''SR'')) = None"
    by (simp add: SetInfo_def Filename_def fs_eval)
  have names: "dirs ?fs (Join [''Maildir'', ''cur'']) = Some [''m'', ''k:2,S'']"
    by (simp add: fs_eval)
  have "Flags ''Maildir'' (snd (SetInfo CHR '':'' ''Maildir'' ?fs ''k'' (''2,'' @ ''SR''))) ''k''
          = Return (sort ''SR'', None)"
    by (rule SetInfo_then_Flags [OF _ _ _ _ _ _ _ names _ ok]) (simp_all add: hasMeta_def)
  with ok show ?thesis by simp
qed

text \<open>
  C9. With the separator configured as \<open>;\<close>, \<open>cur\<close> holds the one file \<open>a;2,S\<close> of
  the key \<open>a\<close>. \<open>SetInfo\<close> succeeds and renames it to \<open>a;2,RS\<close>; \<open>Flags\<close> splits
  the path at \<open>:\<close>, finds a single field and panics on \<open>split[1]\<close>, where the flags
  \<open>RS\<close> are due.
\<close>

theorem Flags_after_SetInfo_panics:
  "fst (SetInfo CHR '';'' ''Maildir''
          (mk_fs [(''Maildir/new'', []), (''Maildir/cur'', [''a;2,S''])] []) ''a'' ''2,RS'') = None \<and>
   dirs (snd (SetInfo CHR '';'' ''Maildir''
          (mk_fs [(''Maildir/new'', []), (''Maildir/cur'', [''a;2,S''])] []) ''a'' ''2,RS''))
     ''Maildir/cur'' = Some [''a;2,RS''] \<and>
   Flags ''Maildir''
     (snd (SetInfo CHR '';'' ''Maildir''
          (mk_fs [(''Maildir/new'', []), (''Maildir/cur'', [''a;2,S''])] []) ''a'' ''2,RS'')) ''a''
     = Panic"
  by (simp add: SetInfo_def Flags_def Filename_def fs_eval)

end
